theory Spec2Isabelle
  imports Main
begin

section \<open>Python values, exceptions and the library the program calls\<close>

text \<open>
  The program is \<^verbatim>\<open>main.py\<close>: an HTTP request handler
  (\<^verbatim>\<open>HTTPRequestHandler\<close>) and an ingest server (\<^verbatim>\<open>socket_server\<close>).
  Both are thin layers over the Python standard library, the operating system and the
  datastore driver. The embedding keeps the program's own control flow as HOL
  definitions and takes everything outside the repository as an explicit parameter:
  \<^item> pure library functions (\<^verbatim>\<open>urlparse\<close>, \<^verbatim>\<open>unquote_plus\<close>, \<^verbatim>\<open>int\<close>,
    \<^verbatim>\<open>json.dumps\<close>, \<^verbatim>\<open>json.loads\<close>, the UTF-8 codec) are the fields of a record
    \<open>lib\<close>;
  \<^item> what the operating system, the network peer, the clock and the datastore do
    during one run is scripted by the records \<open>os_env\<close>, \<open>connection\<close> and \<open>world\<close>;
  \<^item> a raised exception is a value of type \<open>exn\<close>; a function that can raise returns
    \<open>exn + 'a\<close>, or \<open>exn option \<times> state\<close> when the state reached at the raise matters.
\<close>

type_synonym str = string
type_synonym bytes = string

datatype py_class =
    KeyboardInterrupt | SystemExit
  | OSError | ValueError | UnicodeDecodeError | JSONDecodeError
  | AttributeError | IndexError | PyMongoError | RuntimeError

datatype exn = Exn (exn_class: py_class) (exn_str: str)

text \<open>
  \<^verbatim>\<open>except Exception\<close> catches every class but the two that derive from
  \<^verbatim>\<open>BaseException\<close> only; \<^verbatim>\<open>except json.JSONDecodeError\<close> catches that class alone.
\<close>

definition is_Exception :: "exn \<Rightarrow> bool" where
  "is_Exception e = (exn_class e \<noteq> KeyboardInterrupt \<and> exn_class e \<noteq> SystemExit)"

definition is_JSONDecodeError :: "exn \<Rightarrow> bool" where
  "is_JSONDecodeError e = (exn_class e = JSONDecodeError)"

datatype py_float = Finite int int | PosInf | NegInf | NaN

text \<open>
  The objects \<^verbatim>\<open>json.loads\<close> returns and \<^verbatim>\<open>json.dumps\<close> accepts, and the
  \<^verbatim>\<open>ObjectId\<close> the datastore driver puts into a stored document. A dict is an
  association list in insertion order; \<^verbatim>\<open>d.get(k, default)\<close> looks the key up.
\<close>

datatype py_value =
    PyDict "(str \<times> py_value) list"
  | PyList "py_value list"
  | PyStr str
  | PyInt int
  | PyFloat py_float
  | PyBool bool
  | PyNone
  | PyObjectId str

fun type_name :: "py_value \<Rightarrow> str" where
  "type_name (PyDict _) = ''dict''"
| "type_name (PyList _) = ''list''"
| "type_name (PyStr _) = ''str''"
| "type_name (PyInt _) = ''int''"
| "type_name (PyFloat _) = ''float''"
| "type_name (PyBool _) = ''bool''"
| "type_name PyNone = ''NoneType''"
| "type_name (PyObjectId _) = ''ObjectId''"

definition quoted :: "str \<Rightarrow> str" where
  "quoted s = CHR 0x27 # s @ [CHR 0x27]"

text \<open>\<^verbatim>\<open>obj.get(key, default)\<close>: only a dict has the method.\<close>

fun py_get :: "py_value \<Rightarrow> str \<Rightarrow> py_value \<Rightarrow> exn + py_value" where
  "py_get (PyDict kvs) key dflt =
     Inr (case map_of kvs key of None \<Rightarrow> dflt | Some v \<Rightarrow> v)"
| "py_get obj key dflt =
     Inl (Exn AttributeError
       (quoted (type_name obj) @ '' object has no attribute '' @ quoted ''get''))"

text \<open>\<^verbatim>\<open>xs[0]\<close> raises on the empty list.\<close>

fun index0 :: "'a list \<Rightarrow> exn + 'a" where
  "index0 [] = Inl (Exn IndexError ''list index out of range'')"
| "index0 (x # _) = Inr x"

record lib =
  urlparse :: "str \<Rightarrow> str"
  unquote_plus :: "str \<Rightarrow> str"
  py_int :: "str \<Rightarrow> exn + int"
  decode_utf8 :: "bytes \<Rightarrow> exn + str"
  encode_utf8 :: "str \<Rightarrow> bytes"
  json_dumps :: "py_value \<Rightarrow> str"
  json_loads :: "str \<Rightarrow> exn + py_value"
  repr :: "py_value \<Rightarrow> str"
  error_page :: "nat \<Rightarrow> str \<Rightarrow> bytes"

text \<open>
  \<open>urlparse lib p\<close> is \<^verbatim>\<open>urllib.parse.urlparse(p).path\<close>; \<open>error_page lib code message\<close>
  is the body the base class's \<^verbatim>\<open>send_error\<close> writes.
\<close>

section \<open>Configuration\<close>

definition HTTP_PORT :: nat where "HTTP_PORT = 3000"
definition SOCKET_PORT :: nat where "SOCKET_PORT = 5001"
definition FRONT_DIR :: str where "FRONT_DIR = ''front-init''"
definition MONGO_DB :: str where "MONGO_DB = ''messages_db''"
definition MONGO_COLLECTION :: str where "MONGO_COLLECTION = ''messages''"

definition os_path_join :: "str \<Rightarrow> str \<Rightarrow> str" where
  "os_path_join dir name = dir @ ''/'' @ name"

section \<open>The HTTP request handler\<close>

datatype sock_event =
    Socket
  | Connect str nat
  | Sendall bytes
  | SockClose

text \<open>
  \<open>handler\<close> is \<^verbatim>\<open>self\<close>: the request it was created for, the response written so
  far, and the calls made on outbound sockets while handling it.
\<close>

record handler =
  req_path :: str
  req_headers :: "str \<rightharpoonup> str"
  rfile :: bytes
  status :: "nat option"
  resp_headers :: "(str \<times> str) list"
  headers_ended :: bool
  wfile :: bytes
  net :: "sock_event list"

text \<open>
  What the operating system does during one request: the static directory (a path is
  absent or a readable file with its content) and whether each socket call raises.
\<close>

record os_env =
  files :: "str \<rightharpoonup> bytes"
  socket_error :: "exn option"
  connect_error :: "exn option"
  sendall_error :: "exn option"

definition send_response :: "nat \<Rightarrow> handler \<Rightarrow> handler" where
  "send_response code self = self\<lparr>status := Some code\<rparr>"

definition send_header :: "str \<Rightarrow> str \<Rightarrow> handler \<Rightarrow> handler" where
  "send_header keyword val self = self\<lparr>resp_headers := resp_headers self @ [(keyword, val)]\<rparr>"

definition end_headers :: "handler \<Rightarrow> handler" where
  "end_headers self = self\<lparr>headers_ended := True\<rparr>"

definition wfile_write :: "bytes \<Rightarrow> handler \<Rightarrow> handler" where
  "wfile_write b self = self\<lparr>wfile := wfile self @ b\<rparr>"

definition sock_call :: "sock_event \<Rightarrow> handler \<Rightarrow> handler" where
  "sock_call ev self = self\<lparr>net := net self @ [ev]\<rparr>"

text \<open>
  The base class's \<^verbatim>\<open>send_error\<close> (standard library): the status line and the
  library's own error page. Its headers are left out.
\<close>

definition super_send_error :: "lib \<Rightarrow> nat \<Rightarrow> str \<Rightarrow> handler \<Rightarrow> handler" where
  "super_send_error lib code message self =
     wfile_write (error_page lib code message) (end_headers (send_response code self))"

text \<open>
  \<^verbatim>\<open>send_error\<close>, lines 115-128. \<^verbatim>\<open>os.path.exists\<close> followed by reading the file is
  the case distinction on \<open>files os error_file\<close>.
\<close>

definition send_error :: "lib \<Rightarrow> os_env \<Rightarrow> nat \<Rightarrow> str \<Rightarrow> handler \<Rightarrow> handler" where
  "send_error lib os code message self =
     (if code = 404 then
        (let error_file = os_path_join FRONT_DIR ''error.html'' in
         case files os error_file of
           Some content \<Rightarrow>
             wfile_write content
               (end_headers (send_header ''Content-type'' ''text/html'' (send_response 404 self)))
         | None \<Rightarrow> super_send_error lib code message self)
      else super_send_error lib code message self)"

text \<open>\<^verbatim>\<open>serve_file\<close>, lines 103-113.\<close>

definition serve_file :: "lib \<Rightarrow> os_env \<Rightarrow> str \<Rightarrow> str \<Rightarrow> handler \<Rightarrow> handler" where
  "serve_file lib os filename content_type self =
     (let filepath = os_path_join FRONT_DIR filename in
      case files os filepath of
        Some content \<Rightarrow>
          wfile_write content
            (end_headers (send_header ''Content-type'' content_type (send_response 200 self)))
      | None \<Rightarrow> send_error lib os 404 ''Not Found'' self)"

text \<open>\<^verbatim>\<open>do_GET\<close>, lines 35-50.\<close>

definition do_GET :: "lib \<Rightarrow> os_env \<Rightarrow> handler \<Rightarrow> handler" where
  "do_GET lib os self =
     (let path = urlparse lib (req_path self) in
      if path = ''/'' \<or> path = ''/index.html'' then
        serve_file lib os ''index.html'' ''text/html'' self
      else if path = ''/message.html'' then
        serve_file lib os ''message.html'' ''text/html'' self
      else if path = ''/style.css'' then
        serve_file lib os ''style.css'' ''text/css'' self
      else if path = ''/logo.png'' then
        serve_file lib os ''logo.png'' ''image/png'' self
      else send_error lib os 404 ''Not Found'' self)"

text \<open>
  \<^verbatim>\<open>rfile.read(n)\<close> on the buffered request stream: up to \<open>n\<close> bytes, everything
  for \<open>-1\<close>, and a \<^verbatim>\<open>ValueError\<close> below that.
\<close>

definition rfile_read :: "int \<Rightarrow> bytes \<Rightarrow> exn + bytes" where
  "rfile_read n stream =
     (if 0 \<le> n then Inr (take (nat n) stream)
      else if n = - 1 then Inr stream
      else Inl (Exn ValueError ''read length must be non-negative or -1''))"

text \<open>Lines 58-60 of \<^verbatim>\<open>do_POST\<close>: the request body, decoded.\<close>

definition read_body :: "lib \<Rightarrow> handler \<Rightarrow> exn + str" where
  "read_body lib self =
     (case (case req_headers self ''Content-Length'' of
              None \<Rightarrow> Inr 0
            | Some v \<Rightarrow> py_int lib v) of
        Inl e \<Rightarrow> Inl e
      | Inr content_length \<Rightarrow>
          (case rfile_read content_length (rfile self) of
             Inl e \<Rightarrow> Inl e
           | Inr post_data \<Rightarrow> decode_utf8 lib post_data))"

text \<open>
  \<^verbatim>\<open>urllib.parse.parse_qs\<close> with its default arguments, as the standard library
  (Python 3.11) defines it over \<^verbatim>\<open>unquote_plus\<close>: the body is split at \<open>&\<close>, each
  non-empty piece at its first \<open>=\<close>; a piece whose value is empty is skipped (blank
  values are not kept); the values of a name are collected in the order of the body.
\<close>

fun split_on :: "char \<Rightarrow> str \<Rightarrow> str list" where
  "split_on sep [] = [[]]"
| "split_on sep (c # cs) =
     (if c = sep then [] # split_on sep cs
      else (case split_on sep cs of [] \<Rightarrow> [[c]] | piece # pieces \<Rightarrow> (c # piece) # pieces))"

text \<open>\<^verbatim>\<open>name, has_eq, value = name_value.partition('=')\<close>\<close>

definition partition_eq :: "str \<Rightarrow> str \<times> str" where
  "partition_eq name_value =
     (takeWhile (\<lambda>c. c \<noteq> CHR ''='') name_value,
      drop 1 (dropWhile (\<lambda>c. c \<noteq> CHR ''='') name_value))"

fun parse_qsl_loop :: "lib \<Rightarrow> str list \<Rightarrow> (str \<times> str) list" where
  "parse_qsl_loop lib [] = []"
| "parse_qsl_loop lib (name_value # rest) =
     (if name_value \<noteq> [] then
        (case partition_eq name_value of
           (name, val) \<Rightarrow>
             if val \<noteq> [] then
               (unquote_plus lib name, unquote_plus lib val) # parse_qsl_loop lib rest
             else parse_qsl_loop lib rest)
      else parse_qsl_loop lib rest)"

definition parse_qsl :: "lib \<Rightarrow> str \<Rightarrow> (str \<times> str) list" where
  "parse_qsl lib qs = (if qs = [] then [] else parse_qsl_loop lib (split_on CHR ''&'' qs))"

definition parse_qs :: "lib \<Rightarrow> str \<Rightarrow> (str \<rightharpoonup> str list)" where
  "parse_qs lib qs =
     foldl (\<lambda>parsed_result (name, val).
              case parsed_result name of
                Some vs \<Rightarrow> parsed_result(name \<mapsto> vs @ [val])
              | None \<Rightarrow> parsed_result(name \<mapsto> [val]))
       Map.empty (parse_qsl lib qs)"

text \<open>\<^verbatim>\<open>form_data.get(name, [""])[0]\<close>, lines 62-63.\<close>

definition form_field :: "(str \<rightharpoonup> str list) \<Rightarrow> str \<Rightarrow> exn + str" where
  "form_field form_data name =
     index0 (case form_data name of None \<Rightarrow> [''''] | Some vs \<Rightarrow> vs)"

text \<open>Lines 58-63 of \<^verbatim>\<open>do_POST\<close>: the two submitted fields.\<close>

definition read_form :: "lib \<Rightarrow> handler \<Rightarrow> exn + (str \<times> str)" where
  "read_form lib self =
     (case read_body lib self of
        Inl e \<Rightarrow> Inl e
      | Inr body \<Rightarrow>
          (let form_data = parse_qs lib body in
           case form_field form_data ''username'' of
             Inl e \<Rightarrow> Inl e
           | Inr username \<Rightarrow>
               (case form_field form_data ''message'' of
                  Inl e \<Rightarrow> Inl e
                | Inr message \<Rightarrow> Inr (username, message))))"

text \<open>
  \<^verbatim>\<open>send_to_socket_server\<close>, lines 87-101. The socket is closed on every path
  that created it (\<^verbatim>\<open>finally\<close>); the exception, if any, is returned to the caller.
\<close>

definition send_to_socket_server ::
  "lib \<Rightarrow> os_env \<Rightarrow> str \<Rightarrow> str \<Rightarrow> handler \<Rightarrow> exn option \<times> handler" where
  "send_to_socket_server lib os username message self =
     (let data = PyDict [(''username'', PyStr username), (''message'', PyStr message)];
          json_data = encode_utf8 lib (json_dumps lib data)
      in case socket_error os of
           Some e \<Rightarrow> (Some e, self)
         | None \<Rightarrow>
             (let self1 = sock_call (Connect ''localhost'' SOCKET_PORT) (sock_call Socket self) in
              case connect_error os of
                Some e \<Rightarrow> (Some e, sock_call SockClose self1)
              | None \<Rightarrow>
                  (let self2 = sock_call (Sendall json_data) self1 in
                   case sendall_error os of
                     Some e \<Rightarrow> (Some e, sock_call SockClose self2)
                   | None \<Rightarrow> (None, sock_call SockClose self2))))"

text \<open>
  \<^verbatim>\<open>do_POST\<close>, lines 52-85. The first component of the result is an exception that
  leaves the method uncaught.
\<close>

definition do_POST :: "lib \<Rightarrow> os_env \<Rightarrow> handler \<Rightarrow> exn option \<times> handler" where
  "do_POST lib os self =
     (let path = urlparse lib (req_path self) in
      if path = ''/message'' then
        (case read_form lib self of
           Inl e \<Rightarrow> (Some e, self)
         | Inr (username, message) \<Rightarrow>
             if username \<noteq> [] \<and> message \<noteq> [] then
               (case send_to_socket_server lib os username message self of
                  (None, self1) \<Rightarrow>
                    (None,
                     wfile_write ''Message sent successfully!''
                       (end_headers
                         (send_header ''Content-type'' ''text/html'' (send_response 200 self1))))
                | (Some e, self1) \<Rightarrow>
                    if is_Exception e then
                      (None,
                       wfile_write (encode_utf8 lib (''Error: '' @ exn_str e))
                         (end_headers
                           (send_header ''Content-type'' ''text/html'' (send_response 500 self1))))
                    else (Some e, self1))
             else
               (None,
                wfile_write ''Username and message are required''
                  (end_headers
                    (send_header ''Content-type'' ''text/html'' (send_response 400 self)))))
      else (None, send_error lib os 404 ''Not Found'' self))"

section \<open>The clock and the timestamp format\<close>

record datetime =
  year :: nat
  month :: nat
  day :: nat
  hour :: nat
  minute :: nat
  second :: nat
  microsecond :: nat

definition digit_char :: "nat \<Rightarrow> char" where
  "digit_char d = ''0123456789'' ! d"

text \<open>\<^verbatim>\<open>str(n)\<close> for a natural number: its decimal digits.\<close>

fun str_nat :: "nat \<Rightarrow> str" where
  "str_nat n = (if n < 10 then [digit_char n] else str_nat (n div 10) @ [digit_char (n mod 10)])"

declare str_nat.simps [simp del]

definition str_int :: "int \<Rightarrow> str" where
  "str_int i = (if i < 0 then CHR ''-'' # str_nat (nat (- i)) else str_nat (nat i))"

text \<open>A number padded with zeros on the left to at least \<open>w\<close> digits.\<close>

definition zero_pad :: "nat \<Rightarrow> nat \<Rightarrow> str" where
  "zero_pad w n = replicate (w - length (str_nat n)) CHR ''0'' @ str_nat n"

text \<open>
  The directives of \<^verbatim>\<open>strftime\<close> that the program's format string uses; any other
  character after \<open>%\<close> is kept as it is.
\<close>

definition directive :: "datetime \<Rightarrow> char \<Rightarrow> str" where
  "directive dt d =
     (if d = CHR ''Y'' then zero_pad 4 (year dt)
      else if d = CHR ''m'' then zero_pad 2 (month dt)
      else if d = CHR ''d'' then zero_pad 2 (day dt)
      else if d = CHR ''H'' then zero_pad 2 (hour dt)
      else if d = CHR ''M'' then zero_pad 2 (minute dt)
      else if d = CHR ''S'' then zero_pad 2 (second dt)
      else if d = CHR ''f'' then zero_pad 6 (microsecond dt)
      else if d = CHR ''%'' then ''%''
      else [CHR ''%'', d])"

fun strftime :: "datetime \<Rightarrow> str \<Rightarrow> str" where
  "strftime dt (c # d # fmt) =
     (if c = CHR ''%'' then directive dt d @ strftime dt fmt
      else c # strftime dt (d # fmt))"
| "strftime dt fmt = fmt"

section \<open>The ingest server\<close>

datatype event =
    Print str
  | Sleep nat
  | MongoClient str
  | ServerInfo
  | Bind str nat
  | Listen nat
  | Close

text \<open>
  The state of a run of \<^verbatim>\<open>socket_server\<close>: the documents of the datastore
  collection and the calls made so far on the console, the clock, the datastore driver
  and the sockets.
\<close>

record server_state =
  collection :: "py_value list"
  events :: "event list"

definition emit :: "event \<Rightarrow> server_state \<Rightarrow> server_state" where
  "emit ev st = st\<lparr>events := events st @ [ev]\<rparr>"

definition py_print :: "str \<Rightarrow> server_state \<Rightarrow> server_state" where
  "py_print s st = emit (Print s) st"

datatype recv_result = Chunk bytes | RecvError exn

text \<open>
  One iteration of the accept loop as the outside world scripts it: whether
  \<^verbatim>\<open>accept\<close> raises, the peer's address, what the successive \<^verbatim>\<open>recv\<close> calls return
  (the end of the list is the peer's close), the clock reading, whether the
  datastore write raises, and the identifier the driver generates for the document.
  \<^verbatim>\<open>close\<close> is taken not to raise.
\<close>

record connection =
  accept_error :: "exn option"
  address :: str
  recvs :: "recv_result list"
  now :: datetime
  insert_error :: "exn option"
  object_id :: str

text \<open>
  A run of \<^verbatim>\<open>socket_server\<close> as the outside world scripts it: the datastore address
  from the environment, whether the driver's constructor and the liveness check raise
  at each attempt, whether \<^verbatim>\<open>bind\<close> raises, and the connections that arrive.
\<close>

record world =
  MONGO_HOST :: str
  MONGO_PORT :: int
  mongo_client_error :: "nat \<Rightarrow> exn option"
  server_info_error :: "nat \<Rightarrow> exn option"
  bind_error :: "exn option"
  connections :: "connection list"


definition mongo_uri :: "world \<Rightarrow> str" where
  "mongo_uri w = ''mongodb://'' @ MONGO_HOST w @ '':'' @ str_int (MONGO_PORT w) @ ''/''"




text \<open>\<^verbatim>\<open>recv\<close> until the empty chunk, lines 178-183.\<close>

fun recv_all :: "bytes \<Rightarrow> recv_result list \<Rightarrow> exn + bytes" where
  "recv_all data [] = Inr data"
| "recv_all data (RecvError e # rest) = Inl e"
| "recv_all data (Chunk chunk # rest) =
     (if chunk = [] then Inr data else recv_all (data @ chunk) rest)"

text \<open>
  \<^verbatim>\<open>collection.insert_one(document)\<close> of the datastore driver: a document that has no
  \<^verbatim>\<open>_id\<close> key is given one, in place, so that the caller's dict has it afterwards; then
  the write is made, and either raises or stores the document. The result is the
  caller's dict as the call leaves it, and the new state.
\<close>

definition insert_one ::
  "connection \<Rightarrow> (str \<times> py_value) list \<Rightarrow> server_state
     \<Rightarrow> exn + ((str \<times> py_value) list \<times> server_state)" where
  "insert_one c document st =
     (let document1 =
            (if map_of document ''_id'' = None
             then document @ [(''_id'', PyObjectId (object_id c))]
             else document)
      in case insert_error c of
           Some e \<Rightarrow> Inl e
         | None \<Rightarrow> Inr (document1, st\<lparr>collection := collection st @ [PyDict document1]\<rparr>))"

text \<open>The body of the inner \<^verbatim>\<open>try\<close>, lines 187-200.\<close>

definition save_message :: "lib \<Rightarrow> connection \<Rightarrow> bytes \<Rightarrow> server_state \<Rightarrow> exn + server_state" where
  "save_message lib c data st =
     (case decode_utf8 lib data of
        Inl e \<Rightarrow> Inl e
      | Inr s \<Rightarrow>
     (case json_loads lib s of
        Inl e \<Rightarrow> Inl e
      | Inr json_data \<Rightarrow>
     (case py_get json_data ''username'' (PyStr []) of
        Inl e \<Rightarrow> Inl e
      | Inr username \<Rightarrow>
     (case py_get json_data ''message'' (PyStr []) of
        Inl e \<Rightarrow> Inl e
      | Inr message \<Rightarrow>
          (let document =
                 [(''date'', PyStr (strftime (now c) ''%Y-%m-%d %H:%M:%S.%f'')),
                  (''username'', username),
                  (''message'', message)]
           in case insert_one c document st of
                Inl e \<Rightarrow> Inl e
              | Inr (document1, st1) \<Rightarrow>
                  Inr (py_print (''Saved message: '' @ repr lib (PyDict document1)) st1))))))"

text \<open>
  The inner \<^verbatim>\<open>try\<close> with its two handlers, lines 186-205. Only an exception that is
  not an \<^verbatim>\<open>Exception\<close> leaves it.
\<close>

definition parse_and_save ::
  "lib \<Rightarrow> connection \<Rightarrow> bytes \<Rightarrow> server_state \<Rightarrow> exn option \<times> server_state" where
  "parse_and_save lib c data st =
     (case save_message lib c data st of
        Inr st1 \<Rightarrow> (None, st1)
      | Inl e \<Rightarrow>
          if is_JSONDecodeError e then (None, py_print (''Error parsing JSON: '' @ exn_str e) st)
          else if is_Exception e then
            (None, py_print (''Error saving to MongoDB: '' @ exn_str e) st)
          else (Some e, st))"

text \<open>The body of the outer \<^verbatim>\<open>try\<close>, lines 174-207.\<close>

definition handle_connection ::
  "lib \<Rightarrow> connection \<Rightarrow> server_state \<Rightarrow> exn option \<times> server_state" where
  "handle_connection lib c st =
     (case accept_error c of
        Some e \<Rightarrow> (Some e, st)
      | None \<Rightarrow>
          (let st1 = py_print (''Connection from '' @ address c) st in
           case recv_all [] (recvs c) of
             Inl e \<Rightarrow> (Some e, st1)
           | Inr data \<Rightarrow>
               (case parse_and_save lib c data st1 of
                  (Some e, st2) \<Rightarrow> (Some e, st2)
                | (None, st2) \<Rightarrow> (None, emit Close st2))))"

text \<open>
  One iteration of \<^verbatim>\<open>while True\<close>, lines 173-210: the outer \<^verbatim>\<open>try\<close> with its
  handler. \<open>Some e\<close> is an exception that leaves the loop.
\<close>

definition loop_body :: "lib \<Rightarrow> connection \<Rightarrow> server_state \<Rightarrow> exn option \<times> server_state" where
  "loop_body lib c st =
     (case handle_connection lib c st of
        (None, st1) \<Rightarrow> (None, st1)
      | (Some e, st1) \<Rightarrow>
          if is_Exception e then (None, py_print (''Error in socket server: '' @ exn_str e) st1)
          else (Some e, st1))"

text \<open>
  How a run of \<^verbatim>\<open>socket_server\<close> ends: the function returned, an exception left it,
  or every scripted connection has been handled and the server waits in \<^verbatim>\<open>accept\<close>.
\<close>

datatype outcome =
    Returned server_state
  | Raised exn server_state
  | Serving server_state


text \<open>The \<^verbatim>\<open>while True\<close> loop, lines 172-210, over the connections that arrive.\<close>

fun accept_loop :: "lib \<Rightarrow> connection list \<Rightarrow> server_state \<Rightarrow> outcome" where
  "accept_loop lib [] st = Serving st"
| "accept_loop lib (c # cs) st =
     (case loop_body lib c st of
        (Some e, st1) \<Rightarrow> Raised e st1
      | (None, st1) \<Rightarrow> accept_loop lib cs st1)"


section \<open>Notions used in the statements\<close>

text \<open>
  The five static routes of the specification and the file each one serves.
\<close>

definition spec_routes :: "(str \<times> str) list" where
  "spec_routes =
     [(''/'', ''index.html''),
      (''/index.html'', ''index.html''),
      (''/message.html'', ''message.html''),
      (''/style.css'', ''style.css''),
      (''/logo.png'', ''logo.png'')]"

text \<open>
  The fields of a form body as it is written: every piece \<open>name=value\<close> between
  \<open>&\<close>s, in order, blank values included; the values a field appears with, decoded;
  and those of them that are not blank in the body.
\<close>

definition raw_fields :: "str \<Rightarrow> (str \<times> str) list" where
  "raw_fields qs =
     map partition_eq (filter (\<lambda>name_value. CHR ''='' \<in> set name_value) (split_on CHR ''&'' qs))"

definition field_values :: "lib \<Rightarrow> str \<Rightarrow> str \<Rightarrow> str list" where
  "field_values lib qs name =
     map (\<lambda>(n, v). unquote_plus lib v)
       (filter (\<lambda>(n, v). unquote_plus lib n = name) (raw_fields qs))"

definition nonblank_values :: "lib \<Rightarrow> str \<Rightarrow> str \<Rightarrow> str list" where
  "nonblank_values lib qs name =
     map (\<lambda>(n, v). unquote_plus lib v)
       (filter (\<lambda>(n, v). unquote_plus lib n = name \<and> v \<noteq> []) (raw_fields qs))"

definition first_or_empty :: "str list \<Rightarrow> str" where
  "first_or_empty vs = (case vs of [] \<Rightarrow> [] | v # _ \<Rightarrow> v)"

text \<open>The names of the fields of a stored record, in order.\<close>

definition field_names :: "py_value \<Rightarrow> str list" where
  "field_names v = (case v of PyDict kvs \<Rightarrow> map fst kvs | _ \<Rightarrow> [])"

definition is_dict :: "py_value \<Rightarrow> bool" where
  "is_dict v = (case v of PyDict kvs \<Rightarrow> True | _ \<Rightarrow> False)"

definition is_digit :: "char \<Rightarrow> bool" where
  "is_digit c = (c \<in> set ''0123456789'')"

text \<open>
  A string has the shape of a pattern such as \<^verbatim>\<open>YYYY-MM-DD HH:MM:SS.ffffff\<close> when it
  has a digit wherever the pattern has one of the letters \<^verbatim>\<open>Y M D H S f\<close> and the
  pattern's own character everywhere else.
\<close>

definition matches_format :: "str \<Rightarrow> str \<Rightarrow> bool" where
  "matches_format pattern s =
     list_all2 (\<lambda>p c. if p \<in> set ''YMDHSf'' then is_digit c else c = p) pattern s"

text \<open>
  A clock reading with a four-digit year. (\<^verbatim>\<open>datetime\<close> itself allows years from 1;
  how \<open>%Y\<close> prints a year below 1000 depends on the platform.)
\<close>

definition valid_datetime :: "datetime \<Rightarrow> bool" where
  "valid_datetime dt =
     (1000 \<le> year dt \<and> year dt \<le> 9999 \<and> 1 \<le> month dt \<and> month dt \<le> 12
      \<and> 1 \<le> day dt \<and> day dt \<le> 31 \<and> hour dt \<le> 23 \<and> minute dt \<le> 59
      \<and> second dt \<le> 59 \<and> microsecond dt \<le> 999999)"



definition attempt_calls :: "world \<Rightarrow> nat \<Rightarrow> event list" where
  "attempt_calls w i =
     MongoClient (mongo_uri w) # (if mongo_client_error w i = None then [ServerInfo] else [])"

text \<open>The driver calls and the sleeps of a run, in order; and its socket calls.\<close>

definition timeline :: "event list \<Rightarrow> event list" where
  "timeline evs =
     filter (\<lambda>ev. case ev of MongoClient uri \<Rightarrow> True | ServerInfo \<Rightarrow> True | Sleep d \<Rightarrow> True
                   | _ \<Rightarrow> False) evs"

definition socket_calls :: "event list \<Rightarrow> event list" where
  "socket_calls evs =
     filter (\<lambda>ev. case ev of Bind host port \<Rightarrow> True | Listen n \<Rightarrow> True | _ \<Rightarrow> False) evs"



section \<open>Concrete runs\<close>

text \<open>
  The concrete inputs at which the theorems below are instantiated. \<open>ex_lib\<close> gives
  the library functions as tables that agree with the Python library on the strings
  used below, none of which has a \<open>%\<close> or a \<open>+\<close> for \<^verbatim>\<open>unquote_plus\<close> to decode
  (\<open>repr\<close> and \<open>error_page\<close> return placeholders).
\<close>

definition ex_payload :: py_value where
  "ex_payload = PyDict [(''username'', PyStr ''alice''), (''message'', PyStr ''hello'')]"

definition ex_json :: str where
  \<open>ex_json = ''{"username": "alice", "message": "hello"}''\<close>

definition ex_lib :: lib where
  "ex_lib =
     \<lparr>urlparse = takeWhile (\<lambda>c. c \<noteq> CHR ''?''),
      unquote_plus = (\<lambda>s. s),
      py_int = (\<lambda>s.
        if s = ''28'' then Inr 28 else if s = ''23'' then Inr 23
        else if s = ''33'' then Inr 33 else if s = ''35'' then Inr 35
        else Inl (Exn ValueError ''invalid literal for int() with base 10'')),
      decode_utf8 = (\<lambda>b. Inr b),
      encode_utf8 = (\<lambda>s. s),
      json_dumps = (\<lambda>v. if v = ex_payload then ex_json else ''null''),
      json_loads = (\<lambda>s.
        if s = ex_json then Inr ex_payload
        else if s = ''[1, 2]'' then Inr (PyList [PyInt 1, PyInt 2])
        else if s = ''{}'' then Inr (PyDict [])
        else Inl (Exn JSONDecodeError ''Expecting value: line 1 column 1 (char 0)'')),
      repr = (\<lambda>v. ''{...}''),
      error_page = (\<lambda>code message. ''<h1>Error response</h1>'')\<rparr>"

definition ex_os :: os_env where
  "ex_os =
     \<lparr>files = [''front-init/index.html'' \<mapsto> ''<html>home</html>'',
               ''front-init/error.html'' \<mapsto> ''<html>not found</html>''],
      socket_error = None, connect_error = None, sendall_error = None\<rparr>"

definition ex_refused :: exn where
  "ex_refused = Exn OSError ''[Errno 111] Connection refused''"

definition ex_unavailable :: exn where
  "ex_unavailable = Exn PyMongoError ''localhost:27017: [Errno 111] Connection refused''"

definition ex_interrupt :: exn where
  "ex_interrupt = Exn KeyboardInterrupt []"

text \<open>A handler as the server creates it for a request: nothing written yet.\<close>

definition request :: "str \<Rightarrow> (str \<rightharpoonup> str) \<Rightarrow> bytes \<Rightarrow> handler" where
  "request p hs body =
     \<lparr>req_path = p, req_headers = hs, rfile = body, status = None, resp_headers = [],
      headers_ended = False, wfile = [], net = []\<rparr>"

definition ex_post_alice :: handler where
  "ex_post_alice =
     request ''/message'' [''Content-Length'' \<mapsto> ''28''] ''username=alice&message=hello''"

definition ex_post_bob :: handler where
  "ex_post_bob =
     request ''/message'' [''Content-Length'' \<mapsto> ''23''] ''username=bob&message=hi''"

definition ex_post_blank :: handler where
  "ex_post_blank =
     request ''/message'' [''Content-Length'' \<mapsto> ''23''] ''username=&message=hello''"

definition ex_post_repeated :: handler where
  "ex_post_repeated =
     request ''/message'' [''Content-Length'' \<mapsto> ''35'']
       ''username=&username=bob&username=ann''"

definition ex_post_blank_first :: handler where
  "ex_post_blank_first =
     request ''/message'' [''Content-Length'' \<mapsto> ''33'']
       ''username=&username=bob&message=hi''"

definition ex_now :: datetime where
  "ex_now = \<lparr>year = 2024, month = 3, day = 9, hour = 7, minute = 5, second = 1,
             microsecond = 4200\<rparr>"

definition ex_conn :: "recv_result list \<Rightarrow> exn option \<Rightarrow> connection" where
  "ex_conn rs ie =
     \<lparr>accept_error = None, address = ''('' @ quoted ''127.0.0.1'' @ '', 50000)'',
      recvs = rs, now = ex_now, insert_error = ie,
      object_id = ''65ec0a1d9b1e8a3f4c2d7e10''\<rparr>"

definition ex_state :: server_state where
  "ex_state = \<lparr>collection = [], events = []\<rparr>"



section \<open>Auxiliary facts\<close>

lemmas response_defs =
  wfile_write_def end_headers_def send_header_def send_response_def sock_call_def

lemmas server_defs =
  loop_body_def handle_connection_def parse_and_save_def save_message_def insert_one_def
  py_print_def emit_def

lemmas ex_defs =
  ex_lib_def ex_os_def request_def ex_payload_def ex_json_def ex_refused_def
  ex_unavailable_def ex_interrupt_def ex_post_alice_def ex_post_bob_def ex_post_blank_def
  ex_post_repeated_def ex_post_blank_first_def ex_conn_def ex_state_def

lemmas form_defs =
  read_form_def read_body_def rfile_read_def form_field_def parse_qs_def parse_qsl_def
  partition_eq_def

subsection \<open>The timestamp\<close>

lemma digit_char_is_digit: "d < 10 \<Longrightarrow> is_digit (digit_char d)"
  unfolding digit_char_def is_digit_def by (rule nth_mem) simp

lemma str_nat_digits: "list_all is_digit (str_nat n)"
proof (induction n rule: str_nat.induct)
  case (1 n)
  show ?case
  proof (cases "n < 10")
    case True
    then show ?thesis
      by (subst str_nat.simps) (simp add: digit_char_is_digit)
  next
    case False
    then have "list_all is_digit (str_nat (n div 10))"
      using 1 by simp
    moreover have "is_digit (digit_char (n mod 10))"
      by (simp add: digit_char_is_digit)
    ultimately show ?thesis
      using False by (subst str_nat.simps) simp
  qed
qed

lemma length_str_nat: "0 < w \<Longrightarrow> n < 10 ^ w \<Longrightarrow> length (str_nat n) \<le> w"
proof (induction w arbitrary: n)
  case 0
  then show ?case by simp
next
  case (Suc w)
  show ?case
  proof (cases "n < 10")
    case True
    then show ?thesis
      by (subst str_nat.simps) simp
  next
    case False
    then have w: "0 < w"
      using Suc.prems by (cases w) auto
    have "n div 10 < 10 ^ w"
      using Suc.prems by (simp add: less_mult_imp_div_less mult.commute)
    then have "length (str_nat (n div 10)) \<le> w"
      using Suc.IH w by simp
    then show ?thesis
      using False by (subst str_nat.simps) simp
  qed
qed

lemma zero_pad_format:
  assumes "0 < w" and "n < 10 ^ w" and "\<forall>p \<in> set ps. p \<in> set ''YMDHSf''" and "length ps = w"
  shows "matches_format ps (zero_pad w n)"
proof -
  have len: "length (zero_pad w n) = w"
    using length_str_nat [OF assms(1,2)] by (simp add: zero_pad_def)
  have "is_digit CHR ''0''"
    by (simp add: is_digit_def)
  then have "list_all is_digit (zero_pad w n)"
    using str_nat_digits [of n] by (auto simp: zero_pad_def list_all_iff)
  then show ?thesis
    using len assms(3,4)
    by (auto simp: matches_format_def list_all2_conv_all_nth list_all_length)
qed

lemma matches_format_append:
  "matches_format p1 s1 \<Longrightarrow> matches_format p2 s2 \<Longrightarrow> matches_format (p1 @ p2) (s1 @ s2)"
  by (simp add: matches_format_def list_all2_appendI)

lemma strftime_format:
  assumes "valid_datetime dt"
  shows "matches_format ''YYYY-MM-DD HH:MM:SS.ffffff'' (strftime dt ''%Y-%m-%d %H:%M:%S.%f'')"
proof -
  have s: "strftime dt ''%Y-%m-%d %H:%M:%S.%f'' =
      zero_pad 4 (year dt) @ ''-'' @ zero_pad 2 (month dt) @ ''-'' @ zero_pad 2 (day dt) @ '' ''
      @ zero_pad 2 (hour dt) @ '':'' @ zero_pad 2 (minute dt) @ '':'' @ zero_pad 2 (second dt)
      @ ''.'' @ zero_pad 6 (microsecond dt)"
    by (simp add: directive_def)
  have p: "''YYYY-MM-DD HH:MM:SS.ffffff'' =
      ''YYYY'' @ ''-'' @ ''MM'' @ ''-'' @ ''DD'' @ '' '' @ ''HH'' @ '':'' @ ''MM'' @ '':'' @ ''SS''
      @ ''.'' @ ''ffffff''"
    by simp
  have lit: "matches_format ''-'' ''-''" "matches_format '' '' '' ''"
    "matches_format '':'' '':''" "matches_format ''.'' ''.''"
    by (simp_all add: matches_format_def)
  have y: "matches_format ''YYYY'' (zero_pad 4 (year dt))"
    using assms by (intro zero_pad_format) (auto simp: valid_datetime_def)
  have mo: "matches_format ''MM'' (zero_pad 2 (month dt))"
    using assms by (intro zero_pad_format) (auto simp: valid_datetime_def)
  have d: "matches_format ''DD'' (zero_pad 2 (day dt))"
    using assms by (intro zero_pad_format) (auto simp: valid_datetime_def)
  have h: "matches_format ''HH'' (zero_pad 2 (hour dt))"
    using assms by (intro zero_pad_format) (auto simp: valid_datetime_def)
  have mi: "matches_format ''MM'' (zero_pad 2 (minute dt))"
    using assms by (intro zero_pad_format) (auto simp: valid_datetime_def)
  have se: "matches_format ''SS'' (zero_pad 2 (second dt))"
    using assms by (intro zero_pad_format) (auto simp: valid_datetime_def)
  have f: "matches_format ''ffffff'' (zero_pad 6 (microsecond dt))"
    using assms by (intro zero_pad_format) (auto simp: valid_datetime_def)
  show ?thesis
    unfolding s p
    by (intro matches_format_append y mo d h mi se f lit)
qed

lemma ex_strftime: "strftime ex_now ''%Y-%m-%d %H:%M:%S.%f'' = ''2024-03-09 07:05:01.004200''"
proof -
  have r: "replicate 2 CHR ''0'' = ''00''"
    by (simp add: numeral_2_eq_2)
  show ?thesis
    by (simp add: directive_def zero_pad_def ex_now_def str_nat.simps digit_char_def r)
qed


subsection \<open>The startup loop\<close>


lemma timeline_append [simp]: "timeline (xs @ ys) = timeline xs @ timeline ys"
  by (simp add: timeline_def)

lemma timeline_attempt_calls [simp]: "timeline (attempt_calls w i) = attempt_calls w i"
  by (simp add: timeline_def attempt_calls_def)

lemma timeline_py_print [simp]: "timeline (events (py_print s st)) = timeline (events st)"
  by (simp add: timeline_def py_print_def emit_def)

lemma timeline_emit_Sleep [simp]:
  "timeline (events (emit (Sleep d) st)) = timeline (events st) @ [Sleep d]"
  by (simp add: timeline_def emit_def)



lemma socket_calls_append [simp]: "socket_calls (xs @ ys) = socket_calls xs @ socket_calls ys"
  by (simp add: socket_calls_def)

lemma socket_calls_attempt_calls [simp]: "socket_calls (attempt_calls w i) = []"
  by (simp add: socket_calls_def attempt_calls_def)

lemma socket_calls_py_print [simp]:
  "socket_calls (events (py_print s st)) = socket_calls (events st)"
  by (simp add: socket_calls_def py_print_def emit_def)

lemma socket_calls_emit_Sleep [simp]:
  "socket_calls (events (emit (Sleep d) st)) = socket_calls (events st)"
  by (simp add: socket_calls_def emit_def)

lemma collection_emit [simp]: "collection (emit ev st) = collection st"
  by (simp add: emit_def)

lemma collection_py_print [simp]: "collection (py_print s st) = collection st"
  by (simp add: py_print_def)

lemma last_py_print [simp]: "last (events (py_print s st)) = Print s"
  by (simp add: py_print_def emit_def)


lemma timeline_emit_Close [simp]: "timeline (events (emit Close st)) = timeline (events st)"
  by (simp add: timeline_def emit_def)










subsection \<open>The form body\<close>

lemma partition_eq_value:
  "snd (partition_eq name_value) \<noteq> [] \<Longrightarrow> CHR ''='' \<in> set name_value"
proof (rule ccontr)
  assume v: "snd (partition_eq name_value) \<noteq> []" and "CHR ''='' \<notin> set name_value"
  then have d: "dropWhile (\<lambda>c. c \<noteq> CHR ''='') name_value = []"
    by auto
  have "snd (partition_eq name_value) = []"
    unfolding partition_eq_def d by simp
  with v show False
    by simp
qed

lemma parse_qsl_loop_raw:
  "parse_qsl_loop lib pieces
     = map (\<lambda>(n, v). (unquote_plus lib n, unquote_plus lib v))
         (filter (\<lambda>(n, v). v \<noteq> [])
           (map partition_eq (filter (\<lambda>name_value. CHR ''='' \<in> set name_value) pieces)))"
proof (induction pieces)
  case Nil
  then show ?case by simp
next
  case (Cons name_value rest)
  obtain n v where p: "partition_eq name_value = (n, v)"
    by (cases "partition_eq name_value")
  show ?case
  proof (cases "v = []")
    case True
    then show ?thesis
      using Cons p by simp
  next
    case False
    then have "CHR ''='' \<in> set name_value"
      using partition_eq_value [of name_value] p by simp
    moreover from this have "name_value \<noteq> []"
      by auto
    ultimately show ?thesis
      using Cons p False by simp
  qed
qed

lemma parse_qsl_raw:
  "parse_qsl lib qs
     = map (\<lambda>(n, v). (unquote_plus lib n, unquote_plus lib v))
         (filter (\<lambda>(n, v). v \<noteq> []) (raw_fields qs))"
  by (simp add: parse_qsl_def parse_qsl_loop_raw raw_fields_def)

lemma collect_values:
  "foldl (\<lambda>parsed_result (name, val).
            case parsed_result name of
              Some vs \<Rightarrow> parsed_result(name \<mapsto> vs @ [val])
            | None \<Rightarrow> parsed_result(name \<mapsto> [val])) d pairs k
     = (case map snd (filter (\<lambda>p. fst p = k) pairs) of
          [] \<Rightarrow> d k
        | v # vs \<Rightarrow> Some ((case d k of None \<Rightarrow> [] | Some ws \<Rightarrow> ws) @ v # vs))"
proof (induction pairs arbitrary: d)
  case Nil
  then show ?case by simp
next
  case (Cons p pairs)
  obtain n v where p: "p = (n, v)"
    by (cases p)
  show ?case
    unfolding p by (simp add: Cons split: option.splits list.splits)
qed

lemma decoded_values:
  "map snd (filter (\<lambda>p. fst p = k)
     (map (\<lambda>(n, v). (u n, u v)) (filter (\<lambda>(n, v). v \<noteq> []) ps)))
     = map (\<lambda>(n, v). u v) (filter (\<lambda>(n, v). u n = k \<and> v \<noteq> []) ps)"
  by (induction ps) auto

lemma parse_qs_lookup:
  "parse_qs lib qs name
     = (case nonblank_values lib qs name of [] \<Rightarrow> None | v # vs \<Rightarrow> Some (v # vs))"
  by (simp add: parse_qs_def collect_values parse_qsl_raw decoded_values nonblank_values_def
      split: list.splits)

lemma form_field_parse_qs:
  "form_field (parse_qs lib qs) name = Inr (first_or_empty (nonblank_values lib qs name))"
  by (simp add: form_field_def parse_qs_lookup first_or_empty_def split: list.splits)

subsection \<open>The example runs, evaluated\<close>

lemma ex_path:
  "urlparse ex_lib (req_path ex_post_alice) = ''/message''"
  "urlparse ex_lib (req_path ex_post_bob) = ''/message''"
  "urlparse ex_lib (req_path ex_post_blank) = ''/message''"
  by (simp_all add: ex_defs)

lemma ex_form_alice: "read_form ex_lib ex_post_alice = Inr (''alice'', ''hello'')"
  by (simp add: form_defs ex_defs)

lemma ex_form_bob: "read_form ex_lib ex_post_bob = Inr (''bob'', ''hi'')"
  by (simp add: form_defs ex_defs)

lemma ex_form_blank: "read_form ex_lib ex_post_blank = Inr ([], ''hello'')"
  by (simp add: form_defs ex_defs)

lemma ex_fresh:
  "wfile ex_post_alice = []" "net ex_post_alice = []" "status ex_post_alice = None"
  "wfile ex_post_bob = []" "net ex_post_bob = []" "status ex_post_bob = None"
  "wfile ex_post_blank = []" "net ex_post_blank = []" "status ex_post_blank = None"
  by (simp_all add: ex_defs)

lemma ex_sockets:
  "socket_error ex_os = None" "connect_error ex_os = None" "sendall_error ex_os = None"
  by (simp_all add: ex_os_def)

lemma ex_sent: "encode_utf8 ex_lib (json_dumps ex_lib ex_payload) = ex_json"
  by (simp add: ex_lib_def)

lemma ex_round_trip:
  "decode_utf8 ex_lib ex_json = Inr ex_json" "json_loads ex_lib ex_json = Inr ex_payload"
  by (simp_all add: ex_lib_def ex_json_def)

lemma ex_valid_now: "valid_datetime ex_now"
  by (simp add: valid_datetime_def ex_now_def)

section \<open>The claims\<close>

text \<open>
  C1 (as amended). For every POST /message whose form body yields a non-empty username
  and a non-empty message, when the socket calls towards the ingest server succeed the
  handler answers 200 after sending the JSON payload once on one connection to
  localhost:5001. When the ingest server accepts a connection on which exactly these bytes
  arrive, the codec returns the payload it was given, and the datastore accepts the
  write, the iteration adds exactly one record to the collection, whose username and
  message are the submitted values (beside them the record has the date and the
  identifier the driver gives it).
\<close>

theorem message_end_to_end:
  assumes "urlparse lib (req_path self) = ''/message''"
    and "read_form lib self = Inr (username, message)"
    and "username \<noteq> []" and "message \<noteq> []"
    and "socket_error os = None" and "connect_error os = None" and "sendall_error os = None"
    and "accept_error c = None"
    and "recv_all [] (recvs c)
           = Inr (encode_utf8 lib
                   (json_dumps lib (PyDict [(''username'', PyStr username), (''message'', PyStr message)])))"
    and "decode_utf8 lib
           (encode_utf8 lib
             (json_dumps lib (PyDict [(''username'', PyStr username), (''message'', PyStr message)])))
           = Inr (json_dumps lib (PyDict [(''username'', PyStr username), (''message'', PyStr message)]))"
    and "json_loads lib
           (json_dumps lib (PyDict [(''username'', PyStr username), (''message'', PyStr message)]))
           = Inr (PyDict [(''username'', PyStr username), (''message'', PyStr message)])"
    and "insert_error c = None"
  shows "fst (do_POST lib os self) = None
       \<and> status (snd (do_POST lib os self)) = Some 200
       \<and> net (snd (do_POST lib os self))
           = net self
             @ [Socket, Connect ''localhost'' 5001,
                Sendall (encode_utf8 lib
                  (json_dumps lib
                    (PyDict [(''username'', PyStr username), (''message'', PyStr message)]))),
                SockClose]
       \<and> fst (loop_body lib c st) = None
       \<and> collection (snd (loop_body lib c st))
           = collection st
             @ [PyDict [(''date'', PyStr (strftime (now c) ''%Y-%m-%d %H:%M:%S.%f'')),
                        (''username'', PyStr username),
                        (''message'', PyStr message),
                        (''_id'', PyObjectId (object_id c))]]"
proof -
  have "loop_body lib c st =
      (None,
       emit Close
         (py_print (''Saved message: '' @ repr lib
             (PyDict [(''date'', PyStr (strftime (now c) ''%Y-%m-%d %H:%M:%S.%f'')),
                      (''username'', PyStr username), (''message'', PyStr message),
                      (''_id'', PyObjectId (object_id c))]))
           ((py_print (''Connection from '' @ address c) st)
              \<lparr>collection := collection st
                 @ [PyDict [(''date'', PyStr (strftime (now c) ''%Y-%m-%d %H:%M:%S.%f'')),
                            (''username'', PyStr username), (''message'', PyStr message),
                            (''_id'', PyObjectId (object_id c))]]\<rparr>)))"
    using assms(8-12)
    by (simp add: loop_body_def handle_connection_def parse_and_save_def save_message_def
        insert_one_def Let_def del: strftime.simps)
  moreover have "do_POST lib os self =
      (None,
       wfile_write ''Message sent successfully!''
         (end_headers (send_header ''Content-type'' ''text/html'' (send_response 200
           (sock_call SockClose (sock_call (Sendall (encode_utf8 lib
                  (json_dumps lib
                    (PyDict [(''username'', PyStr username), (''message'', PyStr message)]))))
             (sock_call (Connect ''localhost'' SOCKET_PORT) (sock_call Socket self))))))))"
    using assms(1-7) by (simp add: do_POST_def send_to_socket_server_def Let_def)
  ultimately show ?thesis
    by (simp add: response_defs SOCKET_PORT_def py_print_def emit_def)
qed

theorem message_end_to_end_witness:
  "urlparse ex_lib (req_path ex_post_alice) = ''/message''
   \<and> read_form ex_lib ex_post_alice = Inr (''alice'', ''hello'')
   \<and> socket_error ex_os = None \<and> connect_error ex_os = None \<and> sendall_error ex_os = None
   \<and> accept_error (ex_conn [Chunk (take 20 ex_json), Chunk (drop 20 ex_json), Chunk []] None) = None
   \<and> recv_all [] (recvs (ex_conn [Chunk (take 20 ex_json), Chunk (drop 20 ex_json), Chunk []] None))
       = Inr ex_json
   \<and> insert_error (ex_conn [Chunk (take 20 ex_json), Chunk (drop 20 ex_json), Chunk []] None) = None
   \<and> status (snd (do_POST ex_lib ex_os ex_post_alice)) = Some 200
   \<and> net (snd (do_POST ex_lib ex_os ex_post_alice))
       = [Socket, Connect ''localhost'' 5001, Sendall ex_json, SockClose]
   \<and> collection (snd (loop_body ex_lib
         (ex_conn [Chunk (take 20 ex_json), Chunk (drop 20 ex_json), Chunk []] None) ex_state))
       = [PyDict [(''date'', PyStr ''2024-03-09 07:05:01.004200''),
                  (''username'', PyStr ''alice''),
                  (''message'', PyStr ''hello''),
                  (''_id'', PyObjectId ''65ec0a1d9b1e8a3f4c2d7e10'')]]"
proof -
  let ?c = "ex_conn [Chunk (take 20 ex_json), Chunk (drop 20 ex_json), Chunk []] None"
  let ?d = "PyDict [(''username'', PyStr ''alice''), (''message'', PyStr ''hello'')]"
  have d: "?d = ex_payload"
    by (simp add: ex_payload_def)
  have u: "''alice'' \<noteq> ([] :: str)" and m: "''hello'' \<noteq> ([] :: str)"
    by simp_all
  have os: "socket_error ex_os = None" "connect_error ex_os = None" "sendall_error ex_os = None"
    by (simp_all add: ex_os_def)
  have a: "accept_error ?c = None" and i: "insert_error ?c = None" and n: "now ?c = ex_now"
    and oid: "object_id ?c = ''65ec0a1d9b1e8a3f4c2d7e10''"
    by (simp_all add: ex_conn_def)
  have "take 20 ex_json @ drop 20 ex_json = ex_json"
    by simp
  moreover have "take 20 ex_json \<noteq> []" "drop 20 ex_json \<noteq> []"
    by (simp_all add: ex_json_def)
  ultimately have r0: "recv_all [] (recvs ?c) = Inr ex_json"
    by (simp add: ex_conn_def)
  have r: "recv_all [] (recvs ?c) = Inr (encode_utf8 ex_lib (json_dumps ex_lib ?d))"
    unfolding d ex_sent by (rule r0)
  have dec: "decode_utf8 ex_lib (encode_utf8 ex_lib (json_dumps ex_lib ?d))
      = Inr (json_dumps ex_lib ?d)"
    unfolding d by (simp add: ex_lib_def ex_json_def)
  have lo: "json_loads ex_lib (json_dumps ex_lib ?d) = Inr ?d"
    unfolding d by (simp add: ex_lib_def)
  have s: "encode_utf8 ex_lib (json_dumps ex_lib ?d) = ex_json"
    unfolding d by (rule ex_sent)
  have c0: "collection ex_state = []"
    by (simp add: ex_state_def)
  show ?thesis
    using message_end_to_end [OF ex_path(1) ex_form_alice u m os a r dec lo i, of ex_state]
    by (simp only: s n oid ex_strftime ex_fresh c0 ex_path ex_form_alice os a r0 i append_Nil
        simp_thms)
qed

text \<open>
  C1 as the specification states it does not hold: it asks for the one record whenever
  the ingest server is reachable. In this run the form is valid, every socket call
  succeeds, the handler answers 200 and the payload arrives and parses, but the
  datastore write raises: the handler of the inner \<^verbatim>\<open>try\<close> logs the error and no
  record is inserted.
\<close>

theorem message_end_to_end_counterexample:
  "read_form ex_lib ex_post_alice = Inr (''alice'', ''hello'')
   \<and> socket_error ex_os = None \<and> connect_error ex_os = None \<and> sendall_error ex_os = None
   \<and> status (snd (do_POST ex_lib ex_os ex_post_alice)) = Some 200
   \<and> net (snd (do_POST ex_lib ex_os ex_post_alice))
       = [Socket, Connect ''localhost'' 5001, Sendall ex_json, SockClose]
   \<and> accept_error (ex_conn [Chunk ex_json, Chunk []] (Some ex_unavailable)) = None
   \<and> recv_all [] (recvs (ex_conn [Chunk ex_json, Chunk []] (Some ex_unavailable))) = Inr ex_json
   \<and> decode_utf8 ex_lib ex_json = Inr ex_json
   \<and> json_loads ex_lib ex_json = Inr ex_payload
   \<and> loop_body ex_lib (ex_conn [Chunk ex_json, Chunk []] (Some ex_unavailable)) ex_state
       = (None,
          \<lparr>collection = [],
           events = [Print (''Connection from ('' @ quoted ''127.0.0.1'' @ '', 50000)''),
                     Print ''Error saving to MongoDB: localhost:27017: [Errno 111] Connection refused'',
                     Close]\<rparr>)"
proof -
  have j: "ex_json \<noteq> []"
    by (simp add: ex_json_def)
  have p: "do_POST ex_lib ex_os ex_post_alice
      = (None,
         wfile_write ''Message sent successfully!''
           (end_headers (send_header ''Content-type'' ''text/html'' (send_response 200
             (sock_call SockClose (sock_call (Sendall ex_json)
               (sock_call (Connect ''localhost'' SOCKET_PORT) (sock_call Socket ex_post_alice))))))))"
    using ex_path(1) ex_form_alice ex_sent
    by (simp add: do_POST_def send_to_socket_server_def Let_def ex_os_def ex_payload_def)
  have c: "accept_error (ex_conn [Chunk ex_json, Chunk []] (Some ex_unavailable)) = None"
    "recv_all [] (recvs (ex_conn [Chunk ex_json, Chunk []] (Some ex_unavailable))) = Inr ex_json"
    using j by (simp_all add: ex_conn_def)
  have l: "loop_body ex_lib (ex_conn [Chunk ex_json, Chunk []] (Some ex_unavailable)) ex_state
       = (None,
          \<lparr>collection = [],
           events = [Print (''Connection from ('' @ quoted ''127.0.0.1'' @ '', 50000)''),
                     Print ''Error saving to MongoDB: localhost:27017: [Errno 111] Connection refused'',
                     Close]\<rparr>)"
    using j ex_round_trip
    by (simp add: server_defs ex_conn_def ex_state_def ex_payload_def ex_unavailable_def
        is_JSONDecodeError_def is_Exception_def Let_def del: strftime.simps)
  show ?thesis
    using ex_round_trip ex_form_alice ex_sockets c l
    by (simp add: p ex_fresh response_defs SOCKET_PORT_def)
qed

text \<open>
  C2. For every POST /message whose form body yields an empty (or absent) username or an
  empty (or absent) message, the handler answers 400 with the fixed body
  \<^verbatim>\<open>Username and message are required\<close> and makes no call on any outbound socket.
  (An absent field reads as the empty string: see C8.)
\<close>

theorem do_POST_missing_field:
  assumes "urlparse lib (req_path self) = ''/message''"
    and "read_form lib self = Inr (username, message)"
    and "username = [] \<or> message = []"
  shows "fst (do_POST lib os self) = None
       \<and> status (snd (do_POST lib os self)) = Some 400
       \<and> wfile (snd (do_POST lib os self)) = wfile self @ ''Username and message are required''
       \<and> net (snd (do_POST lib os self)) = net self"
  using assms by (auto simp: do_POST_def response_defs)

theorem do_POST_missing_field_witness:
  "urlparse ex_lib (req_path ex_post_blank) = ''/message''
   \<and> read_form ex_lib ex_post_blank = Inr ([], ''hello'')
   \<and> fst (do_POST ex_lib ex_os ex_post_blank) = None
   \<and> status (snd (do_POST ex_lib ex_os ex_post_blank)) = Some 400
   \<and> wfile (snd (do_POST ex_lib ex_os ex_post_blank)) = ''Username and message are required''
   \<and> net (snd (do_POST ex_lib ex_os ex_post_blank)) = []"
proof -
  have h: "([] :: str) = [] \<or> ''hello'' = []"
    by simp
  show ?thesis
    using ex_path(3) ex_form_blank do_POST_missing_field [OF ex_path(3) ex_form_blank h, of ex_os]
    by (simp add: ex_fresh)
qed

text \<open>
  C3. For every POST /message with both fields non-empty, if creating the socket,
  connecting to the ingest server or sending the payload raises an exception \<open>e\<close>,
  the handler answers 500 and the body is the encoding of \<^verbatim>\<open>Error: \<close> followed by
  the text of \<open>e\<close>.
\<close>

theorem do_POST_forwarding_failure:
  assumes "urlparse lib (req_path self) = ''/message''"
    and "read_form lib self = Inr (username, message)"
    and "username \<noteq> []" and "message \<noteq> []"
    and "socket_error os = Some e
       \<or> (socket_error os = None \<and> connect_error os = Some e)
       \<or> (socket_error os = None \<and> connect_error os = None \<and> sendall_error os = Some e)"
    and "is_Exception e"
  shows "fst (do_POST lib os self) = None
       \<and> status (snd (do_POST lib os self)) = Some 500
       \<and> wfile (snd (do_POST lib os self))
           = wfile self @ encode_utf8 lib (''Error: '' @ exn_str e)"
  using assms
  by (auto simp: do_POST_def send_to_socket_server_def response_defs Let_def)

theorem do_POST_forwarding_failure_witness:
  "urlparse ex_lib (req_path ex_post_alice) = ''/message''
   \<and> read_form ex_lib ex_post_alice = Inr (''alice'', ''hello'')
   \<and> socket_error (ex_os\<lparr>connect_error := Some ex_refused\<rparr>) = None
   \<and> connect_error (ex_os\<lparr>connect_error := Some ex_refused\<rparr>) = Some ex_refused
   \<and> is_Exception ex_refused
   \<and> fst (do_POST ex_lib (ex_os\<lparr>connect_error := Some ex_refused\<rparr>) ex_post_alice) = None
   \<and> status (snd (do_POST ex_lib (ex_os\<lparr>connect_error := Some ex_refused\<rparr>) ex_post_alice))
       = Some 500
   \<and> wfile (snd (do_POST ex_lib (ex_os\<lparr>connect_error := Some ex_refused\<rparr>) ex_post_alice))
       = ''Error: [Errno 111] Connection refused''"
proof -
  let ?os = "ex_os\<lparr>connect_error := Some ex_refused\<rparr>"
  have u: "''alice'' \<noteq> ([] :: str)" and m: "''hello'' \<noteq> ([] :: str)"
    by simp_all
  have s: "socket_error ?os = None" and c: "connect_error ?os = Some ex_refused"
    by (simp_all add: ex_os_def)
  have x: "is_Exception ex_refused"
    by (simp add: is_Exception_def ex_refused_def)
  have d: "socket_error ?os = Some ex_refused
       \<or> (socket_error ?os = None \<and> connect_error ?os = Some ex_refused)
       \<or> (socket_error ?os = None \<and> connect_error ?os = None \<and> sendall_error ?os = Some ex_refused)"
    using s c by simp
  have t: "encode_utf8 ex_lib (''Error: '' @ exn_str ex_refused)
      = ''Error: [Errno 111] Connection refused''"
    by (simp add: ex_lib_def ex_refused_def)
  show ?thesis
    using ex_path(1) ex_form_alice s c x t
      do_POST_forwarding_failure [OF ex_path(1) ex_form_alice u m d x]
    by (simp add: ex_fresh)
qed

text \<open>
  C4. For every GET request whose path is one of the five routes \<^verbatim>\<open>/\<close>,
  \<^verbatim>\<open>/index.html\<close>, \<^verbatim>\<open>/message.html\<close>, \<^verbatim>\<open>/style.css\<close>, \<^verbatim>\<open>/logo.png\<close> and whose static
  file exists, the response code is 200 and the body is the content of that file; for
  every other path the response code is 404 and the body is the content of
  \<^verbatim>\<open>error.html\<close> when the static directory has that file, the library's own error page
  otherwise. The path is the path component of the request target.
\<close>

theorem do_GET_routes:
  assumes "wfile self = []"
  shows "(\<forall>filename content.
            map_of spec_routes (urlparse lib (req_path self)) = Some filename
            \<longrightarrow> files os (os_path_join FRONT_DIR filename) = Some content
            \<longrightarrow> status (do_GET lib os self) = Some 200
                \<and> wfile (do_GET lib os self) = content)
       \<and> (map_of spec_routes (urlparse lib (req_path self)) = None
            \<longrightarrow> status (do_GET lib os self) = Some 404
                \<and> wfile (do_GET lib os self)
                    = (case files os (os_path_join FRONT_DIR ''error.html'') of
                         Some content \<Rightarrow> content
                       | None \<Rightarrow> error_page lib 404 ''Not Found''))"
  using assms
  by (auto simp: do_GET_def serve_file_def send_error_def super_send_error_def response_defs
      spec_routes_def Let_def split: if_splits option.splits)

theorem do_GET_routes_witness:
  "wfile (request ''/?lang=en'' Map.empty []) = []
   \<and> map_of spec_routes (urlparse ex_lib (req_path (request ''/?lang=en'' Map.empty [])))
       = Some ''index.html''
   \<and> files ex_os (os_path_join FRONT_DIR ''index.html'') = Some ''<html>home</html>''
   \<and> status (do_GET ex_lib ex_os (request ''/?lang=en'' Map.empty [])) = Some 200
   \<and> wfile (do_GET ex_lib ex_os (request ''/?lang=en'' Map.empty [])) = ''<html>home</html>''
   \<and> wfile (request ''/admin'' Map.empty []) = []
   \<and> map_of spec_routes (urlparse ex_lib (req_path (request ''/admin'' Map.empty []))) = None
   \<and> status (do_GET ex_lib ex_os (request ''/admin'' Map.empty [])) = Some 404
   \<and> wfile (do_GET ex_lib ex_os (request ''/admin'' Map.empty [])) = ''<html>not found</html>''
   \<and> wfile (do_GET ex_lib (ex_os\<lparr>files := Map.empty\<rparr>) (request ''/admin'' Map.empty []))
       = ''<h1>Error response</h1>''"
proof -
  let ?home = "request ''/?lang=en'' Map.empty []"
  let ?admin = "request ''/admin'' Map.empty []"
  have w: "wfile ?home = []" "wfile ?admin = []"
    by (simp_all add: request_def)
  have r: "map_of spec_routes (urlparse ex_lib (req_path ?home)) = Some ''index.html''"
    "map_of spec_routes (urlparse ex_lib (req_path ?admin)) = None"
    by (simp_all add: spec_routes_def ex_lib_def request_def)
  have f: "files ex_os (os_path_join FRONT_DIR ''index.html'') = Some ''<html>home</html>''"
    "files ex_os (os_path_join FRONT_DIR ''error.html'') = Some ''<html>not found</html>''"
    "files (ex_os\<lparr>files := Map.empty\<rparr>) (os_path_join FRONT_DIR ''error.html'') = None"
    by (simp_all add: ex_os_def os_path_join_def FRONT_DIR_def)
  have e: "error_page ex_lib 404 ''Not Found'' = ''<h1>Error response</h1>''"
    by (simp add: ex_lib_def)
  show ?thesis
    using w r f(1)
      do_GET_routes [OF w(1), of ex_lib ex_os]
      do_GET_routes [OF w(2), of ex_lib ex_os]
      do_GET_routes [OF w(2), of ex_lib "ex_os\<lparr>files := Map.empty\<rparr>"]
    by (simp add: f e)
qed



text \<open>
  C6. For every connection whose accumulated bytes fail to decode as UTF-8 or to parse
  as JSON, the ingest server inserts no record, logs the error, closes the connection,
  and the accept loop goes on with the next connection. More generally no
  \<^verbatim>\<open>Exception\<close> raised while one connection is handled (by \<^verbatim>\<open>accept\<close>, \<^verbatim>\<open>recv\<close>,
  the decoding, the parsing or the datastore write) ends the loop: an exception that
  leaves an iteration, or the loop, is not an \<^verbatim>\<open>Exception\<close>.
\<close>

theorem ingest_failure_isolation:
  "(accept_error c = None \<longrightarrow> recv_all [] (recvs c) = Inr data
      \<longrightarrow> (decode_utf8 lib data = Inl e
           \<or> (\<exists>s. decode_utf8 lib data = Inr s \<and> json_loads lib s = Inl e))
      \<longrightarrow> is_Exception e
      \<longrightarrow> fst (loop_body lib c st) = None
          \<and> collection (snd (loop_body lib c st)) = collection st
          \<and> events (snd (loop_body lib c st))
              = events st
                @ [Print (''Connection from '' @ address c),
                   Print ((if is_JSONDecodeError e then ''Error parsing JSON: ''
                           else ''Error saving to MongoDB: '') @ exn_str e),
                   Close]
          \<and> accept_loop lib (c # cs) st = accept_loop lib cs (snd (loop_body lib c st)))
   \<and> (\<forall>x st1. loop_body lib c st = (Some x, st1) \<longrightarrow> \<not> is_Exception x)
   \<and> (\<forall>x st1. accept_loop lib cs st = Raised x st1 \<longrightarrow> \<not> is_Exception x)"
proof (intro conjI impI allI)
  assume "accept_error c = None" "recv_all [] (recvs c) = Inr data"
    "decode_utf8 lib data = Inl e \<or> (\<exists>s. decode_utf8 lib data = Inr s \<and> json_loads lib s = Inl e)"
    "is_Exception e"
  then have b: "loop_body lib c st =
      (None, st\<lparr>events := events st
                @ [Print (''Connection from '' @ address c),
                   Print ((if is_JSONDecodeError e then ''Error parsing JSON: ''
                           else ''Error saving to MongoDB: '') @ exn_str e),
                   Close]\<rparr>)"
    by (auto simp: server_defs)
  show "fst (loop_body lib c st) = None"
    by (simp add: b)
  show "collection (snd (loop_body lib c st)) = collection st"
    by (simp add: b)
  show "events (snd (loop_body lib c st))
          = events st
            @ [Print (''Connection from '' @ address c),
               Print ((if is_JSONDecodeError e then ''Error parsing JSON: ''
                       else ''Error saving to MongoDB: '') @ exn_str e),
               Close]"
    by (simp add: b)
  show "accept_loop lib (c # cs) st = accept_loop lib cs (snd (loop_body lib c st))"
    by (simp add: b)
next
  fix x st1
  assume "loop_body lib c st = (Some x, st1)"
  then show "\<not> is_Exception x"
    by (auto simp: loop_body_def split: prod.splits option.splits if_splits)
next
  fix x st1
  assume "accept_loop lib cs st = Raised x st1"
  then show "\<not> is_Exception x"
  proof (induction cs arbitrary: st)
    case Nil
    then show ?case by simp
  next
    case (Cons c' cs)
    then show ?case
      by (auto simp: loop_body_def split: prod.splits option.splits if_splits)
  qed
qed

theorem ingest_failure_isolation_witness:
  "accept_error (ex_conn [Chunk ''not json'', Chunk []] None) = None
   \<and> recv_all [] (recvs (ex_conn [Chunk ''not json'', Chunk []] None)) = Inr ''not json''
   \<and> decode_utf8 ex_lib ''not json'' = Inr ''not json''
   \<and> json_loads ex_lib ''not json''
       = Inl (Exn JSONDecodeError ''Expecting value: line 1 column 1 (char 0)'')
   \<and> is_Exception (Exn JSONDecodeError ''Expecting value: line 1 column 1 (char 0)'')
   \<and> loop_body ex_lib (ex_conn [Chunk ''not json'', Chunk []] None) ex_state
       = (None,
          \<lparr>collection = [],
           events = [Print (''Connection from ('' @ quoted ''127.0.0.1'' @ '', 50000)''),
                     Print ''Error parsing JSON: Expecting value: line 1 column 1 (char 0)'',
                     Close]\<rparr>)
   \<and> accept_loop ex_lib
        [ex_conn [Chunk ''not json'', Chunk []] None, ex_conn [Chunk ex_json, Chunk []] None]
        ex_state
       = accept_loop ex_lib [ex_conn [Chunk ex_json, Chunk []] None]
           \<lparr>collection = [],
            events = [Print (''Connection from ('' @ quoted ''127.0.0.1'' @ '', 50000)''),
                      Print ''Error parsing JSON: Expecting value: line 1 column 1 (char 0)'',
                      Close]\<rparr>
   \<and> loop_body ex_lib ((ex_conn [] None)\<lparr>accept_error := Some ex_interrupt\<rparr>) ex_state
       = (Some ex_interrupt, ex_state)
   \<and> accept_loop ex_lib [(ex_conn [] None)\<lparr>accept_error := Some ex_interrupt\<rparr>] ex_state
       = Raised ex_interrupt ex_state
   \<and> \<not> is_Exception ex_interrupt"
proof -
  let ?bad = "ex_conn [Chunk ''not json'', Chunk []] None"
  let ?e = "Exn JSONDecodeError ''Expecting value: line 1 column 1 (char 0)''"
  let ?int = "(ex_conn [] None)\<lparr>accept_error := Some ex_interrupt\<rparr>"
  have a: "accept_error ?bad = None" and r: "recv_all [] (recvs ?bad) = Inr ''not json''"
    and ad: "address ?bad = ''('' @ quoted ''127.0.0.1'' @ '', 50000)''"
    by (simp_all add: ex_conn_def)
  have d: "decode_utf8 ex_lib ''not json'' = Inr ''not json''"
    and l: "json_loads ex_lib ''not json'' = Inl ?e"
    by (simp_all add: ex_lib_def ex_json_def)
  have dl: "decode_utf8 ex_lib ''not json'' = Inl ?e
      \<or> (\<exists>s. decode_utf8 ex_lib ''not json'' = Inr s \<and> json_loads ex_lib s = Inl ?e)"
    using d l by simp
  have x: "is_Exception ?e" "is_JSONDecodeError ?e"
    by (simp_all add: is_Exception_def is_JSONDecodeError_def)
  have i: "loop_body ex_lib ?int ex_state = (Some ex_interrupt, ex_state)"
    by (simp add: server_defs ex_conn_def ex_interrupt_def is_Exception_def)
  have il: "accept_loop ex_lib [?int] ex_state = Raised ex_interrupt ex_state"
    by (simp add: i)
  note t = ingest_failure_isolation
    [of ?bad "''not json''" ex_lib ?e ex_state "[ex_conn [Chunk ex_json, Chunk []] None]"]
  have f: "fst (loop_body ex_lib ?bad ex_state) = None"
    and c: "collection (snd (loop_body ex_lib ?bad ex_state)) = collection ex_state"
    and ev: "events (snd (loop_body ex_lib ?bad ex_state))
        = events ex_state
          @ [Print (''Connection from '' @ address ?bad),
             Print ((if is_JSONDecodeError ?e then ''Error parsing JSON: ''
                     else ''Error saving to MongoDB: '') @ exn_str ?e),
             Close]"
    and lp: "accept_loop ex_lib [?bad, ex_conn [Chunk ex_json, Chunk []] None] ex_state
        = accept_loop ex_lib [ex_conn [Chunk ex_json, Chunk []] None]
            (snd (loop_body ex_lib ?bad ex_state))"
    using t a r dl x(1) by blast+
  have s: "snd (loop_body ex_lib ?bad ex_state)
      = \<lparr>collection = [],
         events = [Print (''Connection from ('' @ quoted ''127.0.0.1'' @ '', 50000)''),
                   Print ''Error parsing JSON: Expecting value: line 1 column 1 (char 0)'',
                   Close]\<rparr>"
    using c ev x(2) by (simp add: ad ex_state_def)
  have b: "loop_body ex_lib ?bad ex_state
      = (None,
         \<lparr>collection = [],
          events = [Print (''Connection from ('' @ quoted ''127.0.0.1'' @ '', 50000)''),
                    Print ''Error parsing JSON: Expecting value: line 1 column 1 (char 0)'',
                    Close]\<rparr>)"
    using f s by (simp add: prod_eq_iff)
  have ni: "\<not> is_Exception ex_interrupt"
    using ingest_failure_isolation [of ?int "[]" ex_lib ?e ex_state "[]"] i by blast
  show ?thesis
    using a r d l x(1) b lp [unfolded s] i il ni by (intro conjI)
qed

text \<open>
  C7 (as amended). For a payload that parses as a JSON object, the iteration adds to the
  collection either nothing (when the datastore write raises) or exactly one record,
  and that record has exactly four fields: the three the ingest server builds, which
  are \<^verbatim>\<open>date\<close>, the clock reading at ingest time formatted by
  \<^verbatim>\<open>%Y-%m-%d %H:%M:%S.%f\<close>, of the shape \<^verbatim>\<open>YYYY-MM-DD HH:MM:SS.ffffff\<close>, and
  \<^verbatim>\<open>username\<close> and \<^verbatim>\<open>message\<close>, each the value of that key in the payload or the
  empty string when the payload has no such key; and the \<^verbatim>\<open>_id\<close> that the datastore
  driver adds to the document on insert.
\<close>

theorem stored_record_fields:
  assumes "accept_error c = None" and "recv_all [] (recvs c) = Inr data"
    and "decode_utf8 lib data = Inr s" and "json_loads lib s = Inr (PyDict kvs)"
    and "valid_datetime (now c)"
  shows "collection (snd (loop_body lib c st))
           = collection st
             @ (if insert_error c = None then
                  [PyDict [(''date'', PyStr (strftime (now c) ''%Y-%m-%d %H:%M:%S.%f'')),
                           (''username'',
                              case map_of kvs ''username'' of None \<Rightarrow> PyStr [] | Some u \<Rightarrow> u),
                           (''message'',
                              case map_of kvs ''message'' of None \<Rightarrow> PyStr [] | Some m \<Rightarrow> m),
                           (''_id'', PyObjectId (object_id c))]]
                else [])
       \<and> matches_format ''YYYY-MM-DD HH:MM:SS.ffffff'' (strftime (now c) ''%Y-%m-%d %H:%M:%S.%f'')"
proof
  show "matches_format ''YYYY-MM-DD HH:MM:SS.ffffff'' (strftime (now c) ''%Y-%m-%d %H:%M:%S.%f'')"
    using assms(5) by (rule strftime_format)
  show "collection (snd (loop_body lib c st))
           = collection st
             @ (if insert_error c = None then
                  [PyDict [(''date'', PyStr (strftime (now c) ''%Y-%m-%d %H:%M:%S.%f'')),
                           (''username'',
                              case map_of kvs ''username'' of None \<Rightarrow> PyStr [] | Some u \<Rightarrow> u),
                           (''message'',
                              case map_of kvs ''message'' of None \<Rightarrow> PyStr [] | Some m \<Rightarrow> m),
                           (''_id'', PyObjectId (object_id c))]]
                else [])"
    using assms(1-4)
    by (auto simp: server_defs Let_def simp del: strftime.simps split: option.splits)
qed

theorem stored_record_fields_witness:
  "accept_error (ex_conn [Chunk ''{}'', Chunk []] None) = None
   \<and> recv_all [] (recvs (ex_conn [Chunk ''{}'', Chunk []] None)) = Inr ''{}''
   \<and> decode_utf8 ex_lib ''{}'' = Inr ''{}''
   \<and> json_loads ex_lib ''{}'' = Inr (PyDict [])
   \<and> valid_datetime (now (ex_conn [Chunk ''{}'', Chunk []] None))
   \<and> collection (snd (loop_body ex_lib (ex_conn [Chunk ''{}'', Chunk []] None) ex_state))
       = [PyDict [(''date'', PyStr ''2024-03-09 07:05:01.004200''),
                  (''username'', PyStr []),
                  (''message'', PyStr []),
                  (''_id'', PyObjectId ''65ec0a1d9b1e8a3f4c2d7e10'')]]
   \<and> matches_format ''YYYY-MM-DD HH:MM:SS.ffffff'' ''2024-03-09 07:05:01.004200''"
proof -
  let ?c = "ex_conn [Chunk ''{}'', Chunk []] None"
  have a: "accept_error ?c = None" and r: "recv_all [] (recvs ?c) = Inr ''{}''"
    and n: "now ?c = ex_now" and i: "insert_error ?c = None"
    and oid: "object_id ?c = ''65ec0a1d9b1e8a3f4c2d7e10''"
    by (simp_all add: ex_conn_def)
  have d: "decode_utf8 ex_lib ''{}'' = Inr ''{}''"
    and l: "json_loads ex_lib ''{}'' = Inr (PyDict [])"
    by (simp_all add: ex_lib_def ex_json_def)
  have v: "valid_datetime (now ?c)"
    unfolding n by (rule ex_valid_now)
  have c0: "collection ex_state = []"
    by (simp add: ex_state_def)
  show ?thesis
    using a r d l v stored_record_fields [OF a r d l v, of ex_state]
    by (simp add: n i oid c0 ex_strftime del: strftime.simps)
qed

text \<open>
  C7 as the specification states it does not hold: it gives the persisted record
  exactly three fields. In this run the payload is the object sent for alice, the write
  succeeds, and the one record in the collection has four fields: the driver has added
  \<^verbatim>\<open>_id\<close> to the three the server built.
\<close>

theorem stored_record_fields_counterexample:
  "accept_error (ex_conn [Chunk ex_json, Chunk []] None) = None
   \<and> recv_all [] (recvs (ex_conn [Chunk ex_json, Chunk []] None)) = Inr ex_json
   \<and> decode_utf8 ex_lib ex_json = Inr ex_json
   \<and> json_loads ex_lib ex_json = Inr ex_payload
   \<and> insert_error (ex_conn [Chunk ex_json, Chunk []] None) = None
   \<and> collection (snd (loop_body ex_lib (ex_conn [Chunk ex_json, Chunk []] None) ex_state))
       = [PyDict [(''date'', PyStr ''2024-03-09 07:05:01.004200''),
                  (''username'', PyStr ''alice''),
                  (''message'', PyStr ''hello''),
                  (''_id'', PyObjectId ''65ec0a1d9b1e8a3f4c2d7e10'')]]
   \<and> map field_names
         (collection (snd (loop_body ex_lib (ex_conn [Chunk ex_json, Chunk []] None) ex_state)))
       = [[''date'', ''username'', ''message'', ''_id'']]"
proof -
  let ?c = "ex_conn [Chunk ex_json, Chunk []] None"
  have j: "ex_json \<noteq> []"
    by (simp add: ex_json_def)
  have a: "accept_error ?c = None" and r: "recv_all [] (recvs ?c) = Inr ex_json"
    and i: "insert_error ?c = None"
    using j by (simp_all add: ex_conn_def)
  have l: "collection (snd (loop_body ex_lib ?c ex_state))
       = [PyDict [(''date'', PyStr ''2024-03-09 07:05:01.004200''),
                  (''username'', PyStr ''alice''),
                  (''message'', PyStr ''hello''),
                  (''_id'', PyObjectId ''65ec0a1d9b1e8a3f4c2d7e10'')]]"
    using j ex_round_trip ex_strftime
    by (simp add: server_defs ex_conn_def ex_state_def ex_payload_def Let_def
        del: strftime.simps)
  show ?thesis
    using a r i ex_round_trip by (simp add: l field_names_def)
qed

text \<open>
  C8 (as amended). When the form body of a POST /message is decoded, an occurrence of a
  field with a blank value is ignored; a field that then appears several times reads as
  the first of its values that is not blank, and a field that is missing, or has blank
  values only, reads as the empty string.
\<close>

theorem read_form_first_nonblank_value:
  assumes "read_body lib self = Inr body"
  shows "read_form lib self
           = Inr (first_or_empty (nonblank_values lib body ''username''),
                  first_or_empty (nonblank_values lib body ''message''))"
  using assms by (simp add: read_form_def form_field_parse_qs)

theorem read_form_first_nonblank_value_witness:
  "read_body ex_lib ex_post_repeated = Inr ''username=&username=bob&username=ann''
   \<and> field_values ex_lib ''username=&username=bob&username=ann'' ''username''
       = [[], ''bob'', ''ann'']
   \<and> nonblank_values ex_lib ''username=&username=bob&username=ann'' ''username''
       = [''bob'', ''ann'']
   \<and> nonblank_values ex_lib ''username=&username=bob&username=ann'' ''message'' = []
   \<and> read_form ex_lib ex_post_repeated = Inr (''bob'', [])"
proof -
  have b: "read_body ex_lib ex_post_repeated = Inr ''username=&username=bob&username=ann''"
    by (simp add: read_body_def rfile_read_def ex_defs)
  have raw: "raw_fields ''username=&username=bob&username=ann''
      = [(''username'', []), (''username'', ''bob''), (''username'', ''ann'')]"
    by (simp add: raw_fields_def partition_eq_def)
  have u: "unquote_plus ex_lib = (\<lambda>s. s)"
    by (simp add: ex_lib_def)
  have f: "field_values ex_lib ''username=&username=bob&username=ann'' ''username''
      = [[], ''bob'', ''ann'']"
    by (simp add: field_values_def raw u)
  have nu: "nonblank_values ex_lib ''username=&username=bob&username=ann'' ''username''
      = [''bob'', ''ann'']"
    and nm: "nonblank_values ex_lib ''username=&username=bob&username=ann'' ''message'' = []"
    by (simp_all add: nonblank_values_def raw u)
  show ?thesis
    using b f nu nm read_form_first_nonblank_value [OF b]
    by (simp add: first_or_empty_def)
qed

text \<open>
  C8 as the specification states it does not hold: it lets the first value of a
  repeated field win. In this body \<^verbatim>\<open>username\<close> appears twice, first with a blank
  value and then with \<^verbatim>\<open>bob\<close>; \<^verbatim>\<open>parse_qs\<close> does not keep blank values, so the
  handler reads \<^verbatim>\<open>bob\<close> and answers 200, where the first value would have given the
  empty string and a 400.
\<close>

theorem read_form_first_value_counterexample:
  "urlparse ex_lib (req_path ex_post_blank_first) = ''/message''
   \<and> read_body ex_lib ex_post_blank_first = Inr ''username=&username=bob&message=hi''
   \<and> field_values ex_lib ''username=&username=bob&message=hi'' ''username'' = [[], ''bob'']
   \<and> read_form ex_lib ex_post_blank_first = Inr (''bob'', ''hi'')
   \<and> status (snd (do_POST ex_lib ex_os ex_post_blank_first)) = Some 200"
proof -
  have p: "urlparse ex_lib (req_path ex_post_blank_first) = ''/message''"
    by (simp add: ex_defs)
  have b: "read_body ex_lib ex_post_blank_first = Inr ''username=&username=bob&message=hi''"
    by (simp add: read_body_def rfile_read_def ex_defs)
  have raw: "raw_fields ''username=&username=bob&message=hi''
      = [(''username'', []), (''username'', ''bob''), (''message'', ''hi'')]"
    by (simp add: raw_fields_def partition_eq_def)
  have u: "unquote_plus ex_lib = (\<lambda>s. s)"
    by (simp add: ex_lib_def)
  have f: "field_values ex_lib ''username=&username=bob&message=hi'' ''username'' = [[], ''bob'']"
    by (simp add: field_values_def raw u)
  have r: "read_form ex_lib ex_post_blank_first = Inr (''bob'', ''hi'')"
    using b
    by (simp add: read_form_def form_field_parse_qs nonblank_values_def raw u
        first_or_empty_def)
  have s: "status (snd (do_POST ex_lib ex_os ex_post_blank_first)) = Some 200"
    using p r
    by (simp add: do_POST_def send_to_socket_server_def response_defs Let_def ex_sockets)
  show ?thesis
    using p b f r s by (intro conjI)
qed

text \<open>
  C9. The response to a POST /message does not reflect the submitted values: two
  requests handled in the same environment whose forms decode, and which take the same
  branch (both with two non-empty fields, or both with an empty field), get the same
  status and the same body, whatever the values of username and message.
\<close>

theorem do_POST_body_independent_of_fields:
  assumes "urlparse lib (req_path a) = ''/message''"
    and "urlparse lib (req_path b) = ''/message''"
    and "read_form lib a = Inr (username_a, message_a)"
    and "read_form lib b = Inr (username_b, message_b)"
    and "(username_a \<noteq> [] \<and> message_a \<noteq> []) = (username_b \<noteq> [] \<and> message_b \<noteq> [])"
    and "status a = status b" and "wfile a = wfile b"
  shows "fst (do_POST lib os a) = fst (do_POST lib os b)
       \<and> status (snd (do_POST lib os a)) = status (snd (do_POST lib os b))
       \<and> wfile (snd (do_POST lib os a)) = wfile (snd (do_POST lib os b))"
  using assms
  by (auto simp: do_POST_def send_to_socket_server_def response_defs Let_def
      split: option.splits)

theorem do_POST_body_independent_of_fields_witness:
  "urlparse ex_lib (req_path ex_post_alice) = ''/message''
   \<and> urlparse ex_lib (req_path ex_post_bob) = ''/message''
   \<and> read_form ex_lib ex_post_alice = Inr (''alice'', ''hello'')
   \<and> read_form ex_lib ex_post_bob = Inr (''bob'', ''hi'')
   \<and> status ex_post_alice = status ex_post_bob
   \<and> wfile ex_post_alice = wfile ex_post_bob
   \<and> status (snd (do_POST ex_lib ex_os ex_post_alice)) = Some 200
   \<and> status (snd (do_POST ex_lib ex_os ex_post_bob)) = Some 200
   \<and> wfile (snd (do_POST ex_lib ex_os ex_post_alice)) = ''Message sent successfully!''
   \<and> wfile (snd (do_POST ex_lib ex_os ex_post_bob)) = ''Message sent successfully!''"
proof -
  have br: "(''alice'' \<noteq> ([] :: str) \<and> ''hello'' \<noteq> ([] :: str))
      = (''bob'' \<noteq> ([] :: str) \<and> ''hi'' \<noteq> ([] :: str))"
    by simp
  have st: "status ex_post_alice = status ex_post_bob"
    and wf: "wfile ex_post_alice = wfile ex_post_bob"
    by (simp_all add: ex_fresh)
  have al: "status (snd (do_POST ex_lib ex_os ex_post_alice)) = Some 200"
    "wfile (snd (do_POST ex_lib ex_os ex_post_alice)) = ''Message sent successfully!''"
    using ex_path(1) ex_form_alice
    by (simp_all add: do_POST_def send_to_socket_server_def response_defs Let_def ex_sockets
        ex_fresh)
  show ?thesis
    using ex_path(1,2) ex_form_alice ex_form_bob st wf al
      do_POST_body_independent_of_fields
        [OF ex_path(1) ex_path(2) ex_form_alice ex_form_bob br st wf, of ex_os]
    by simp
qed

text \<open>
  C10. For every connection whose accumulated bytes parse as JSON that is not an object
  (an array, a string, a number, a boolean, null), the lookup of \<^verbatim>\<open>username\<close> raises
  an \<^verbatim>\<open>AttributeError\<close>, which the generic handler of the inner \<^verbatim>\<open>try\<close> logs: no
  record is inserted, the connection is closed, and the accept loop goes on with the
  next connection.
\<close>

theorem non_object_payload_dropped:
  assumes "accept_error c = None" and "recv_all [] (recvs c) = Inr data"
    and "decode_utf8 lib data = Inr s" and "json_loads lib s = Inr v" and "\<not> is_dict v"
  shows "fst (loop_body lib c st) = None
       \<and> collection (snd (loop_body lib c st)) = collection st
       \<and> events (snd (loop_body lib c st))
           = events st
             @ [Print (''Connection from '' @ address c),
                Print (''Error saving to MongoDB: '' @ quoted (type_name v)
                         @ '' object has no attribute '' @ quoted ''get''),
                Close]
       \<and> accept_loop lib (c # cs) st = accept_loop lib cs (snd (loop_body lib c st))"
proof -
  have g: "py_get v ''username'' (PyStr []) =
      Inl (Exn AttributeError (quoted (type_name v) @ '' object has no attribute '' @ quoted ''get''))"
    using assms(5) by (cases v) (simp_all add: is_dict_def)
  have "loop_body lib c st =
      (None, st\<lparr>events := events st
             @ [Print (''Connection from '' @ address c),
                Print (''Error saving to MongoDB: '' @ quoted (type_name v)
                         @ '' object has no attribute '' @ quoted ''get''),
                Close]\<rparr>)"
    using assms(1-4) g by (simp add: server_defs is_JSONDecodeError_def is_Exception_def)
  then show ?thesis
    by simp
qed

theorem non_object_payload_dropped_witness:
  "accept_error (ex_conn [Chunk ''[1, 2]'', Chunk []] None) = None
   \<and> recv_all [] (recvs (ex_conn [Chunk ''[1, 2]'', Chunk []] None)) = Inr ''[1, 2]''
   \<and> decode_utf8 ex_lib ''[1, 2]'' = Inr ''[1, 2]''
   \<and> json_loads ex_lib ''[1, 2]'' = Inr (PyList [PyInt 1, PyInt 2])
   \<and> \<not> is_dict (PyList [PyInt 1, PyInt 2])
   \<and> fst (loop_body ex_lib (ex_conn [Chunk ''[1, 2]'', Chunk []] None) ex_state) = None
   \<and> collection (snd (loop_body ex_lib (ex_conn [Chunk ''[1, 2]'', Chunk []] None) ex_state)) = []
   \<and> events (snd (loop_body ex_lib (ex_conn [Chunk ''[1, 2]'', Chunk []] None) ex_state))
       = [Print (''Connection from ('' @ quoted ''127.0.0.1'' @ '', 50000)''),
          Print (''Error saving to MongoDB: '' @ quoted ''list''
                   @ '' object has no attribute '' @ quoted ''get''),
          Close]
   \<and> accept_loop ex_lib
        [ex_conn [Chunk ''[1, 2]'', Chunk []] None, ex_conn [Chunk ex_json, Chunk []] None]
        ex_state
       = accept_loop ex_lib [ex_conn [Chunk ex_json, Chunk []] None]
           (snd (loop_body ex_lib (ex_conn [Chunk ''[1, 2]'', Chunk []] None) ex_state))"
proof -
  let ?c = "ex_conn [Chunk ''[1, 2]'', Chunk []] None"
  have a: "accept_error ?c = None" and r: "recv_all [] (recvs ?c) = Inr ''[1, 2]''"
    and ad: "address ?c = ''('' @ quoted ''127.0.0.1'' @ '', 50000)''"
    by (simp_all add: ex_conn_def)
  have d: "decode_utf8 ex_lib ''[1, 2]'' = Inr ''[1, 2]''"
    and l: "json_loads ex_lib ''[1, 2]'' = Inr (PyList [PyInt 1, PyInt 2])"
    by (simp_all add: ex_lib_def ex_json_def)
  have n: "\<not> is_dict (PyList [PyInt 1, PyInt 2])"
    by (simp add: is_dict_def)
  have s0: "collection ex_state = []" "events ex_state = []"
    by (simp_all add: ex_state_def)
  show ?thesis
    using a r d l n
      non_object_payload_dropped
        [OF a r d l n, of ex_state "[ex_conn [Chunk ex_json, Chunk []] None]"]
    by (simp add: s0 ad)
qed

end
